theory Spec2Isabelle
  imports Complex_Main "HOL-Library.Log_Nat"
begin

section \<open>JavaScript numbers\<close>

text \<open>
  The component in \<^verbatim>\<open>src/components/letterhead.tsx\<close> computes with JavaScript numbers:
  IEEE 754 binary64 values. A finite double is carried here as the rational number it
  denotes; the two infinities and NaN are separate values. The sign of zero is not tracked
  (\<open>-0\<close> is identified with \<open>0\<close>): the component never divides by a computed zero of
  negative sign, which is the only place where the sign could be observed.
\<close>

datatype number = Num rat | PosInfinity | NegInfinity | NaN

text \<open>
  \<open>ilog2 x\<close> is the binary exponent of a positive rational: the integer \<open>k\<close> with
  \<open>2\<^sup>k \<le> x < 2\<^sup>k\<^sup>+\<^sup>1\<close>, found from the bit lengths of numerator and denominator.
\<close>

definition ilog2 :: "rat \<Rightarrow> int" where
  "ilog2 x =
     (let p = fst (quotient_of x); q = snd (quotient_of x);
          e = int (floorlog 2 (nat p)) - int (floorlog 2 (nat q))
      in if 2 powi e \<le> x then e else e - 1)"

definition round_half_even :: "rat \<Rightarrow> int" where
  "round_half_even y =
     (let f = \<lfloor>y\<rfloor>; d = y - of_int f
      in if d < 1 / 2 then f
         else if 1 / 2 < d then f + 1
         else if even f then f else f + 1)"

text \<open>
  \<open>fl x\<close> rounds an exact result to binary64, to nearest with ties to even: 53 significant
  bits for a normal value, the fixed spacing \<open>2\<^sup>-\<^sup>1\<^sup>0\<^sup>7\<^sup>4\<close> below \<open>2\<^sup>-\<^sup>1\<^sup>0\<^sup>2\<^sup>2\<close>, and an
  infinity when the rounded magnitude reaches \<open>2\<^sup>1\<^sup>0\<^sup>2\<^sup>4\<close>. A decimal literal of the source
  such as \<^verbatim>\<open>0.8\<close> is \<open>fl (8 / 10)\<close>.
\<close>

definition fl :: "rat \<Rightarrow> number" where
  "fl x =
     (if x = 0 then Num 0
      else let e = max (ilog2 \<bar>x\<bar> - 52) (- 1074);
               r = of_int (round_half_even (x / 2 powi e)) * 2 powi e
           in if 2 powi 1024 \<le> r then PosInfinity
              else if r \<le> - (2 powi 1024) then NegInfinity
              else Num r)"

fun js_neg :: "number \<Rightarrow> number" where
  "js_neg (Num a) = Num (- a)"
| "js_neg PosInfinity = NegInfinity"
| "js_neg NegInfinity = PosInfinity"
| "js_neg NaN = NaN"

fun js_add :: "number \<Rightarrow> number \<Rightarrow> number" where
  "js_add (Num a) (Num b) = fl (a + b)"
| "js_add NaN _ = NaN"
| "js_add _ NaN = NaN"
| "js_add PosInfinity NegInfinity = NaN"
| "js_add NegInfinity PosInfinity = NaN"
| "js_add PosInfinity _ = PosInfinity"
| "js_add _ PosInfinity = PosInfinity"
| "js_add NegInfinity _ = NegInfinity"
| "js_add _ NegInfinity = NegInfinity"

definition js_sub :: "number \<Rightarrow> number \<Rightarrow> number" where
  "js_sub a b = js_add a (js_neg b)"

fun js_mul :: "number \<Rightarrow> number \<Rightarrow> number" where
  "js_mul (Num a) (Num b) = fl (a * b)"
| "js_mul NaN _ = NaN"
| "js_mul _ NaN = NaN"
| "js_mul (Num a) PosInfinity =
     (if a = 0 then NaN else if 0 < a then PosInfinity else NegInfinity)"
| "js_mul (Num a) NegInfinity =
     (if a = 0 then NaN else if 0 < a then NegInfinity else PosInfinity)"
| "js_mul PosInfinity (Num b) =
     (if b = 0 then NaN else if 0 < b then PosInfinity else NegInfinity)"
| "js_mul NegInfinity (Num b) =
     (if b = 0 then NaN else if 0 < b then NegInfinity else PosInfinity)"
| "js_mul PosInfinity PosInfinity = PosInfinity"
| "js_mul NegInfinity NegInfinity = PosInfinity"
| "js_mul PosInfinity NegInfinity = NegInfinity"
| "js_mul NegInfinity PosInfinity = NegInfinity"

fun js_div :: "number \<Rightarrow> number \<Rightarrow> number" where
  "js_div (Num a) (Num b) =
     (if b = 0 then (if a = 0 then NaN else if 0 < a then PosInfinity else NegInfinity)
      else fl (a / b))"
| "js_div NaN _ = NaN"
| "js_div _ NaN = NaN"
| "js_div (Num a) _ = Num 0"
| "js_div PosInfinity (Num b) = (if 0 \<le> b then PosInfinity else NegInfinity)"
| "js_div NegInfinity (Num b) = (if 0 \<le> b then NegInfinity else PosInfinity)"
| "js_div _ _ = NaN"

fun js_le :: "number \<Rightarrow> number \<Rightarrow> bool" where
  "js_le NaN _ = False"
| "js_le _ NaN = False"
| "js_le NegInfinity _ = True"
| "js_le _ PosInfinity = True"
| "js_le (Num a) (Num b) = (a \<le> b)"
| "js_le _ _ = False"

fun Math_max :: "number \<Rightarrow> number \<Rightarrow> number" where
  "Math_max NaN _ = NaN"
| "Math_max _ NaN = NaN"
| "Math_max a b = (if js_le a b then b else a)"

fun Math_min :: "number \<Rightarrow> number \<Rightarrow> number" where
  "Math_min NaN _ = NaN"
| "Math_min _ NaN = NaN"
| "Math_min a b = (if js_le a b then a else b)"

text \<open>
  \<^verbatim>\<open>x.toFixed(f)\<close> returns a string. For a finite \<open>x\<close> of magnitude below \<open>10\<^sup>2\<^sup>1\<close> it is
  the decimal notation of the integer \<open>n\<close> for which \<open>n / 10\<^sup>f\<close> is closest to \<open>x\<close> (the larger
  \<open>n\<close> on a tie, taken on the magnitude), with \<open>f\<close> digits after the point and the sign in
  front; otherwise it is the plain conversion of \<open>x\<close> to a string. The string is carried by
  what it denotes. \<^verbatim>\<open>Number(s)\<close> reads it back as the nearest double.
\<close>

datatype numeric_string =
  Fixed bool nat nat
| Plain number

fun toFixed :: "nat \<Rightarrow> number \<Rightarrow> numeric_string" where
  "toFixed f (Num x) =
     (if 10 ^ 21 \<le> \<bar>x\<bar> then Plain (Num x)
      else Fixed (x < 0) (nat \<lfloor>\<bar>x\<bar> * 10 ^ f + 1 / 2\<rfloor>) f)"
| "toFixed f x = Plain x"

fun Number :: "numeric_string \<Rightarrow> number" where
  "Number (Fixed neg n f) = fl ((if neg then - 1 else 1) * of_nat n / 10 ^ f)"
| "Number (Plain x) = x"

section \<open>State\<close>

text \<open>
  \<open>cachedPdfjs\<close> is the module-level variable of the source; the other fields are the six
  \<^verbatim>\<open>useState\<close> cells of the \<^verbatim>\<open>Letterhead\<close> component, with the initial values given there.
  A state setter is an assignment to its field. A value that was thrown is either an
  instance of \<^verbatim>\<open>Error\<close>, with its message, or some other value.
\<close>

datatype thrown = ErrorInstance string | OtherValue

record viewport =
  width :: number
  height :: number

record canvas =
  canvas_width :: nat
  canvas_height :: nat
  imageSmoothingEnabled :: bool
  pixels :: "nat list"

text \<open>
  The PDF library is not part of the repository. Its objects are records of the members
  that the component uses; a promise is carried by the way it settles, \<open>Inl\<close> for a
  rejection with the value thrown.
\<close>

record page =
  getViewport :: "number \<Rightarrow> viewport"
  render :: "canvas \<Rightarrow> viewport \<Rightarrow> thrown + nat list"

record pdf =
  numPages :: int
  getPage :: "int \<Rightarrow> thrown + page"

record pdfjsLib =
  getDocument :: "nat list \<Rightarrow> thrown + pdf"

text \<open>
  A selected file: \<open>file_type\<close> and \<open>file_name\<close> are the members \<^verbatim>\<open>type\<close> and \<^verbatim>\<open>name\<close> of
  the source, \<open>arrayBuffer\<close> is how the promise of \<^verbatim>\<open>file.arrayBuffer()\<close> settles.
\<close>

record File =
  file_type :: string
  file_name :: string
  arrayBuffer :: "thrown + nat list"

text \<open>
  What the browser contributes to one run of the handler: how the dynamic import of the
  library settles, \<^verbatim>\<open>previewContainerRef.current?.clientWidth\<close> (\<open>None\<close> when the ref is
  empty), whether \<^verbatim>\<open>canvas.getContext("2d")\<close> gives a context, and
  \<^verbatim>\<open>canvas.toDataURL("image/jpeg", 1.0)\<close>.
\<close>

record browser =
  import_pdfjs :: "thrown + pdfjsLib"
  clientWidth :: "int option"
  getContext :: bool
  toDataURL :: "canvas \<Rightarrow> thrown + string"

record state =
  cachedPdfjs :: "(thrown + pdfjsLib) option"
  renderedImage :: "string option"
  pdfName :: "string option"
  isRendering :: bool
  renderError :: "string option"
  pageCount :: "int option"
  zoomLevel :: number

definition initial_state :: state where
  "initial_state =
     \<lparr>cachedPdfjs = None, renderedImage = None, pdfName = None, isRendering = False,
      renderError = None, pageCount = None, zoomLevel = Num 1\<rparr>"

section \<open>Zoom controls\<close>

text \<open>
  \<^verbatim>\<open>
  const handleZoomOut = useCallback(() => {
    setZoomLevel((value) => {
      const next = Math.max(0.8, value - 0.1)
      return Number(next.toFixed(2))
    })
  }, [])
  \<close>
  and \<^verbatim>\<open>handleZoomIn\<close> alike with \<^verbatim>\<open>Math.min(1.8, value + 0.1)\<close>;
  \<^verbatim>\<open>handleZoomReset\<close> is \<^verbatim>\<open>setZoomLevel(1.0)\<close>.
\<close>

definition zoom_out_update :: "number \<Rightarrow> number" where
  "zoom_out_update v =
     (let next = Math_max (fl (8 / 10)) (js_sub v (fl (1 / 10)))
      in Number (toFixed 2 next))"

definition zoom_in_update :: "number \<Rightarrow> number" where
  "zoom_in_update v =
     (let next = Math_min (fl (18 / 10)) (js_add v (fl (1 / 10)))
      in Number (toFixed 2 next))"

definition handleZoomOut :: "state \<Rightarrow> state" where
  "handleZoomOut s = s\<lparr>zoomLevel := zoom_out_update (zoomLevel s)\<rparr>"

definition handleZoomIn :: "state \<Rightarrow> state" where
  "handleZoomIn s = s\<lparr>zoomLevel := zoom_in_update (zoomLevel s)\<rparr>"

definition handleZoomReset :: "state \<Rightarrow> state" where
  "handleZoomReset s = s\<lparr>zoomLevel := Num 1\<rparr>"

datatype zoom_click = ZoomOut | ZoomIn | ZoomReset

fun click :: "state \<Rightarrow> zoom_click \<Rightarrow> state" where
  "click s ZoomOut = handleZoomOut s"
| "click s ZoomIn = handleZoomIn s"
| "click s ZoomReset = handleZoomReset s"

text \<open>
  The zoom controller in the words of the specification, on exact decimal numbers
  instead of doubles: decrement with floor 0.8 and increment with ceiling 1.8, each
  stepping by 0.1 and rounding to two decimals (half away from zero).
  \<open>spec_zoom_levels\<close> are the eleven decimals 0.8, 0.9, \<dots>, 1.8.
\<close>

definition spec_round2 :: "rat \<Rightarrow> rat" where
  "spec_round2 x = sgn x * of_int \<lfloor>\<bar>x\<bar> * 100 + 1 / 2\<rfloor> / 100"

definition spec_decrement :: "rat \<Rightarrow> rat" where
  "spec_decrement v = spec_round2 (max (8 / 10) (v - 1 / 10))"

definition spec_increment :: "rat \<Rightarrow> rat" where
  "spec_increment v = spec_round2 (min (18 / 10) (v + 1 / 10))"

definition spec_zoom_levels :: "rat list" where
  "spec_zoom_levels = map (\<lambda>n. of_nat n / 10) [8..<19]"

section \<open>File selection and rendering\<close>

text \<open>
  \<^verbatim>\<open>
  function loadPdfjs() {
    if (!cachedPdfjs) {
      cachedPdfjs = import("pdfjs-dist/legacy/build/pdf").then((pdfjsLib) => { ... })
    }
    return cachedPdfjs
  }
  \<close>
  The promise of the import is stored whether it is fulfilled or rejected.
\<close>

definition loadPdfjs :: "browser \<Rightarrow> state \<Rightarrow> state \<times> (thrown + pdfjsLib)" where
  "loadPdfjs env s =
     (case cachedPdfjs s of
        None \<Rightarrow> (s\<lparr>cachedPdfjs := Some (import_pdfjs env)\<rparr>, import_pdfjs env)
      | Some p \<Rightarrow> (s, p))"

text \<open>
  Assigning a number to \<^verbatim>\<open>canvas.width\<close> or \<^verbatim>\<open>canvas.height\<close> converts it to an unsigned
  32-bit integer (NaN and the infinities to 0, otherwise truncated towards zero and reduced
  modulo \<open>2\<^sup>3\<^sup>2\<close>); a result above \<open>2\<^sup>3\<^sup>1 - 1\<close> is replaced by the attribute's default.
\<close>

fun ToUint32 :: "number \<Rightarrow> nat" where
  "ToUint32 (Num r) = nat ((if 0 \<le> r then \<lfloor>r\<rfloor> else - \<lfloor>- r\<rfloor>) mod 2 ^ 32)"
| "ToUint32 _ = 0"

definition set_dimension :: "nat \<Rightarrow> number \<Rightarrow> nat" where
  "set_dimension fallback x =
     (let n = ToUint32 x in if 2147483647 < n then fallback else n)"

text \<open>
  Lines 67 to 74 of \<^verbatim>\<open>handleFileChange\<close>:
  \<^verbatim>\<open>
  const unscaledViewport = page.getViewport({ scale: 1 })
  const container = previewContainerRef.current
  const containerWidth = container?.clientWidth ?? unscaledViewport.width
  const targetScale = containerWidth / unscaledViewport.width
  const renderScale = targetScale * 4
  const scaledViewport = page.getViewport({ scale: renderScale })
  \<close>
\<close>

definition containerWidth :: "browser \<Rightarrow> page \<Rightarrow> number" where
  "containerWidth env pg =
     (case clientWidth env of
        Some w \<Rightarrow> Num (of_int w)
      | None \<Rightarrow> width (getViewport pg (Num 1)))"

definition renderScale :: "browser \<Rightarrow> page \<Rightarrow> number" where
  "renderScale env pg =
     (let unscaledViewport = getViewport pg (Num 1);
          targetScale = js_div (containerWidth env pg) (width unscaledViewport)
      in js_mul targetScale (Num 4))"

definition scaledViewport :: "browser \<Rightarrow> page \<Rightarrow> viewport" where
  "scaledViewport env pg = getViewport pg (renderScale env pg)"

text \<open>
  Lines 76 to 99: the canvas is created, sized from the scaled viewport, smoothing is
  switched off and the surface is cleared.
\<close>

definition new_canvas :: "browser \<Rightarrow> page \<Rightarrow> canvas" where
  "new_canvas env pg =
     \<lparr>canvas_width = set_dimension 300 (width (scaledViewport env pg)),
      canvas_height = set_dimension 150 (height (scaledViewport env pg)),
      imageSmoothingEnabled = False,
      pixels = []\<rparr>"

text \<open>Lines 67 to 103: from the page to the data URL, or to the value thrown.\<close>

definition draw_page :: "browser \<Rightarrow> page \<Rightarrow> thrown + string" where
  "draw_page env pg =
     (if \<not> getContext env
      then Inl (ErrorInstance ''Unable to create canvas context for preview.'')
      else case render pg (new_canvas env pg) (scaledViewport env pg) of
             Inl t \<Rightarrow> Inl t
           | Inr px \<Rightarrow> toDataURL env ((new_canvas env pg)\<lparr>pixels := px\<rparr>))"

text \<open>
  The \<^verbatim>\<open>try\<close> block, lines 60 to 104. It returns the state it leaves and the value
  thrown, if any. \<^verbatim>\<open>setPageCount\<close> runs as soon as the document is open, before the page
  is fetched and drawn.
\<close>

definition try_block :: "browser \<Rightarrow> File \<Rightarrow> state \<Rightarrow> state \<times> thrown option" where
  "try_block env file s =
     (case arrayBuffer file of
        Inl t \<Rightarrow> (s, Some t)
      | Inr buffer \<Rightarrow>
          (case loadPdfjs env s of
             (s1, Inl t) \<Rightarrow> (s1, Some t)
           | (s1, Inr lib) \<Rightarrow>
               (case getDocument lib buffer of
                  Inl t \<Rightarrow> (s1, Some t)
                | Inr doc \<Rightarrow>
                    (let s2 = s1\<lparr>pageCount := Some (numPages doc)\<rparr>
                     in case getPage doc 1 of
                          Inl t \<Rightarrow> (s2, Some t)
                        | Inr pg \<Rightarrow>
                            (case draw_page env pg of
                               Inl t \<Rightarrow> (s2, Some t)
                             | Inr dataUrl \<Rightarrow>
                                 (s2\<lparr>renderedImage := Some dataUrl\<rparr>, None))))))"

text \<open>
  The \<^verbatim>\<open>catch\<close> block, lines 105 to 111:
  \<^verbatim>\<open>
  const message =
    error instanceof Error ? error.message : "Something went wrong while rendering the PDF."
  \<close>
\<close>

definition message :: "thrown \<Rightarrow> string" where
  "message error =
     (case error of
        ErrorInstance m \<Rightarrow> m
      | OtherValue \<Rightarrow> ''Something went wrong while rendering the PDF.'')"

definition catch_block :: "thrown \<Rightarrow> state \<Rightarrow> state" where
  "catch_block error s =
     s\<lparr>renderedImage := None, pageCount := None, renderError := Some (message error)\<rparr>"

text \<open>
  \<^verbatim>\<open>handleFileChange\<close> is an async function: it runs synchronously up to its first
  \<^verbatim>\<open>await\<close> (lines 43 to 57) and resumes later. \<open>handleFileChange_sync\<close> is the first part;
  it returns the state it leaves and the file whose rendering is pending, if any.
  \<open>handleFileChange_async\<close> is the remainder (lines 59 to 114), run to completion with
  no other handler in between, and \<open>handleFileChange\<close> is one after the other.
  \<open>first_file\<close> is \<^verbatim>\<open>event.target.files?.[0]\<close>.
\<close>

fun first_file :: "File list option \<Rightarrow> File option" where
  "first_file None = None"
| "first_file (Some []) = None"
| "first_file (Some (file # _)) = Some file"

definition handleFileChange_sync :: "File list option \<Rightarrow> state \<Rightarrow> state \<times> File option" where
  "handleFileChange_sync files s =
     (case first_file files of
        None \<Rightarrow> (s, None)
      | Some file \<Rightarrow>
          if file_type file \<noteq> ''application/pdf''
          then (s\<lparr>renderError := Some ''Please select a PDF file.'',
                  renderedImage := None, pdfName := None, pageCount := None\<rparr>, None)
          else (s\<lparr>pdfName := Some (file_name file), zoomLevel := Num 1,
                  renderError := None, isRendering := True\<rparr>, Some file))"

definition handleFileChange_async :: "browser \<Rightarrow> File \<Rightarrow> state \<Rightarrow> state" where
  "handleFileChange_async env file s =
     (case try_block env file s of
        (s1, None) \<Rightarrow> s1\<lparr>isRendering := False\<rparr>
      | (s1, Some error) \<Rightarrow> (catch_block error s1)\<lparr>isRendering := False\<rparr>)"

definition handleFileChange :: "browser \<Rightarrow> File list option \<Rightarrow> state \<Rightarrow> state" where
  "handleFileChange env files s =
     (case handleFileChange_sync files s of
        (s1, None) \<Rightarrow> s1
      | (s1, Some file) \<Rightarrow> handleFileChange_async env file s1)"

section \<open>A sample run\<close>

text \<open>
  Concrete collaborators, used to run the handlers on explicit inputs. The sample library
  rejects a buffer of fewer than four bytes and otherwise opens a document with one page
  for every four bytes; its first page is of US Letter size, its viewport scales linearly,
  and rendering paints the bytes of the file. The sample browser has a preview container
  800 pixels wide and encodes a canvas by the length of its pixel data. The other browsers
  differ from it in one respect each: a container 93 pixels wide, no 2D context, and a
  library that rejects every buffer with an \<^verbatim>\<open>Error\<close> whose message is empty.
\<close>

definition sample_page :: "nat list \<Rightarrow> page" where
  "sample_page px =
     \<lparr>getViewport = (\<lambda>scale. \<lparr>width = js_mul (Num 612) scale, height = js_mul (Num 792) scale\<rparr>),
      render = (\<lambda>cv vp. Inr px)\<rparr>"

definition sample_pdf :: "nat list \<Rightarrow> pdf" where
  "sample_pdf buffer =
     \<lparr>numPages = int (length buffer) div 4,
      getPage = (\<lambda>n. if n = 1 then Inr (sample_page buffer)
                     else Inl (ErrorInstance ''Invalid page request.''))\<rparr>"

definition sample_lib :: pdfjsLib where
  "sample_lib =
     \<lparr>getDocument = (\<lambda>buffer. if length buffer < 4 then Inl (ErrorInstance ''Invalid PDF structure.'')
                              else Inr (sample_pdf buffer))\<rparr>"

definition sample_browser :: browser where
  "sample_browser =
     \<lparr>import_pdfjs = Inr sample_lib, clientWidth = Some 800, getContext = True,
      toDataURL = (\<lambda>cv. Inr (''data:image/jpeg;base64,'' @ replicate (length (pixels cv)) CHR ''A''))\<rparr>"

definition sample_file :: File where
  "sample_file =
     \<lparr>file_type = ''application/pdf'', file_name = ''invoice.pdf'',
      arrayBuffer = Inr [37, 80, 68, 70]\<rparr>"

definition second_file :: File where
  "second_file =
     \<lparr>file_type = ''application/pdf'', file_name = ''letter.pdf'',
      arrayBuffer = Inr [37, 80, 68, 70, 45, 49, 46, 55]\<rparr>"

definition empty_file :: File where
  "empty_file =
     \<lparr>file_type = ''application/pdf'', file_name = ''empty.pdf'', arrayBuffer = Inr []\<rparr>"

definition text_file :: File where
  "text_file =
     \<lparr>file_type = ''text/plain'', file_name = ''notes.txt'', arrayBuffer = Inr [104, 105]\<rparr>"




section \<open>Sequences of events\<close>

text \<open>
  The user's actions on the component: a change of the file input, handled in the browser
  environment of that moment, or a click on one of the three zoom buttons. The buttons
  are disabled while there is no preview and at the respective bound; a click is taken
  here in any state, which covers the enabled ones. Each handler runs to completion
  before the next event. \<open>render_succeeds s ev\<close> says that \<open>ev\<close>, arriving
  in state \<open>s\<close>, is the selection of a PDF whose \<^verbatim>\<open>try\<close> block runs to its end.
\<close>

datatype event = FileChange browser "File list option" | Click zoom_click

fun handle :: "state \<Rightarrow> event \<Rightarrow> state" where
  "handle s (FileChange env files) = handleFileChange env files s"
| "handle s (Click c) = click s c"


definition preview :: "state \<Rightarrow> string option \<times> string option \<times> int option" where
  "preview s = (pdfName s, renderedImage s, pageCount s)"

section \<open>The handler step by step\<close>









section \<open>Rounding to binary64\<close>

text \<open>
  \<open>ilog2\<close> is the binary exponent, so \<open>fl\<close> has a closed form on the normal range, and a
  rounded value can be checked from its exponent and mantissa (\<open>fl_is\<close>). One rounding
  changes a value in the normal range by at most the fraction \<open>2\<^sup>-\<^sup>5\<^sup>3\<close> of it.
\<close>

lemma powi_pos: "0 < (2::rat) powi k"
  by (simp add: zero_less_power_int)

lemma ilog2_bounds:
  assumes "0 < x"
  shows "2 powi (ilog2 x) \<le> x \<and> x < 2 powi (ilog2 x + 1)"
proof -
  obtain p q where pq: "quotient_of x = (p, q)" by (cases "quotient_of x")
  have q: "0 < q" using pq quotient_of_denom_pos by blast
  have x: "x = of_int p / of_int q" using pq quotient_of_div by blast
  have p: "0 < p" using assms x q by (simp add: zero_less_divide_iff)
  define bp where "bp = floorlog 2 (nat p)"
  define bq where "bq = floorlog 2 (nat q)"
  define P :: rat where "P = of_int p"
  define Q :: rat where "Q = of_int q"
  have Pn: "P = of_nat (nat p)" and Qn: "Q = of_nat (nat q)"
    using p q by (simp_all add: P_def Q_def)
  have bp1: "0 < bp" and bq1: "0 < bq"
    using p q by (simp_all add: bp_def bq_def floorlog_eq_zero_iff zero_less_iff_neq_zero)
  have p_lo: "2 ^ (bp - 1) \<le> nat p" and p_hi: "nat p < 2 ^ bp"
    using floorlog_bounds [of "nat p" 2] p by (simp_all add: bp_def)
  have q_lo: "2 ^ (bq - 1) \<le> nat q" and q_hi: "nat q < 2 ^ bq"
    using floorlog_bounds [of "nat q" 2] q by (simp_all add: bq_def)
  have P_lo: "2 ^ (bp - 1) \<le> P"
    unfolding Pn using p_lo by (metis of_nat_le_iff of_nat_numeral of_nat_power)
  have P_hi: "P < 2 ^ bp"
    unfolding Pn using p_hi by (metis of_nat_less_iff of_nat_numeral of_nat_power)
  have Q_lo: "2 ^ (bq - 1) \<le> Q"
    unfolding Qn using q_lo by (metis of_nat_le_iff of_nat_numeral of_nat_power)
  have Q_hi: "Q < 2 ^ bq"
    unfolding Qn using q_hi by (metis of_nat_less_iff of_nat_numeral of_nat_power)
  have Qpos: "0 < Q" using q by (simp add: Q_def)
  have Ppos: "0 < P" using p by (simp add: P_def)
  define e where "e = int bp - int bq"
  have pw: "(2::rat) powi (int a - int b) = 2 ^ a / 2 ^ b" for a b
    by (simp add: power_int_diff)
  have hi: "x < 2 powi (e + 1)"
  proof -
    have "x = P / Q" by (simp add: x P_def Q_def)
    also have "\<dots> < 2 ^ bp / Q" using P_hi Qpos by (simp add: divide_strict_right_mono)
    also have "\<dots> \<le> 2 ^ bp / 2 ^ (bq - 1)" using Q_lo by (simp add: frac_le)
    also have "\<dots> = 2 powi (int bp - int (bq - 1))" by (simp only: pw)
    finally have "x < 2 powi (int bp - int (bq - 1))" .
    moreover have "int bp - int (bq - 1) = e + 1"
      using bq1 unfolding e_def by linarith
    ultimately show ?thesis by (simp only:)
  qed
  have lo: "2 powi (e - 1) < x"
  proof -
    have "e - 1 = int (bp - 1) - int bq"
      using bp1 unfolding e_def by linarith
    then have "2 powi (e - 1) = (2::rat) powi (int (bp - 1) - int bq)"
      by (simp only:)
    also have "\<dots> = 2 ^ (bp - 1) / 2 ^ bq" by (simp only: pw)
    also have "\<dots> \<le> P / 2 ^ bq" using P_lo by (simp add: divide_right_mono)
    also have "\<dots> < P / Q" using Q_hi Qpos Ppos by (simp add: divide_strict_left_mono)
    also have "\<dots> = x" by (simp add: x P_def Q_def)
    finally show ?thesis .
  qed
  have il: "ilog2 x = (if 2 powi e \<le> x then e else e - 1)"
    by (simp add: ilog2_def pq bp_def bq_def e_def Let_def)
  show ?thesis
  proof (cases "2 powi e \<le> x")
    case True
    then show ?thesis using hi il by simp
  next
    case False
    then show ?thesis using lo il by simp
  qed
qed

lemma ilog2_unique:
  assumes "2 powi k \<le> x" and "x < 2 powi (k + 1)"
  shows "ilog2 x = k"
proof -
  have x: "0 < x" using assms(1) powi_pos [of k] by linarith
  note b = ilog2_bounds [OF x]
  have 1: "k < ilog2 x + 1"
  proof (rule ccontr)
    assume "\<not> k < ilog2 x + 1"
    then have "(2::rat) powi (ilog2 x + 1) \<le> 2 powi k"
      by (intro power_int_increasing) simp_all
    with assms(1) b show False by linarith
  qed
  have 2: "ilog2 x < k + 1"
  proof (rule ccontr)
    assume "\<not> ilog2 x < k + 1"
    then have "(2::rat) powi (k + 1) \<le> 2 powi (ilog2 x)"
      by (intro power_int_increasing) simp_all
    with assms(2) b show False by linarith
  qed
  from 1 2 show ?thesis by linarith
qed

lemma round_half_even_error: "\<bar>y - of_int (round_half_even y)\<bar> \<le> 1 / 2"
proof -
  have "of_int \<lfloor>y\<rfloor> \<le> y" "y < of_int \<lfloor>y\<rfloor> + 1" by linarith+
  then show ?thesis
    by (auto simp: round_half_even_def Let_def)
qed

lemma round_half_even_unique:
  assumes "\<bar>y - of_int m\<bar> < 1 / 2"
  shows "round_half_even y = m"
proof -
  have "\<bar>y - of_int (round_half_even y)\<bar> \<le> 1 / 2" by (rule round_half_even_error)
  with assms have "\<bar>(of_int (round_half_even y) :: rat) - of_int m\<bar> < 1" by linarith
  then have "\<bar>(of_int (round_half_even y - m) :: rat)\<bar> < 1" by simp
  then have "\<bar>round_half_even y - m\<bar> < 1"
    by (metis of_int_abs of_int_less_1_iff)
  then show ?thesis by linarith
qed

lemma powi_split_53: "(2::rat) powi (k + 1) = 2 ^ 53 * 2 powi (k - 52)"
proof -
  have "k + 1 = 53 + (k - 52)" by simp
  then have "(2::rat) powi (k + 1) = 2 powi (53 + (k - 52))" by (simp only:)
  also have "\<dots> = 2 powi 53 * 2 powi (k - 52)" by (rule power_int_add) simp
  finally show ?thesis by simp
qed

lemma fl_normal:
  assumes lo: "2 powi k \<le> \<bar>x\<bar>" and hi: "\<bar>x\<bar> < 2 powi (k + 1)"
    and k1: "- 1022 \<le> k" and k2: "k \<le> 1022"
  shows "fl x = Num (of_int (round_half_even (x / 2 powi (k - 52))) * 2 powi (k - 52))"
proof -
  define u :: rat where "u = 2 powi (k - 52)"
  define m where "m = round_half_even (x / u)"
  have u: "0 < u" by (simp add: u_def powi_pos)
  have "0 < \<bar>x\<bar>" using lo powi_pos [of k] by linarith
  then have x0: "x \<noteq> 0" by simp
  have il: "ilog2 \<bar>x\<bar> = k" using lo hi by (rule ilog2_unique)
  have e: "max (k - 52) (- 1074) = k - 52" using k1 by simp
  have "\<bar>x\<bar> < 2 ^ 53 * u" using hi by (simp only: powi_split_53 u_def)
  then have "\<bar>x\<bar> / u < 2 ^ 53" using u by (simp add: pos_divide_less_eq)
  then have y: "\<bar>x / u\<bar> < 2 ^ 53" using u by simp
  have "\<bar>x / u - of_int m\<bar> \<le> 1 / 2" unfolding m_def by (rule round_half_even_error)
  with y have "\<bar>(of_int m :: rat)\<bar> < 2 ^ 53 + 1" by linarith
  then have "\<bar>(of_int m :: rat)\<bar> < of_int (2 ^ 53 + 1)" by simp
  then have "\<bar>m\<bar> < 2 ^ 53 + 1" by (metis of_int_abs of_int_less_iff)
  then have "\<bar>m\<bar> \<le> 2 ^ 53" by simp
  then have "of_int \<bar>m\<bar> \<le> (of_int (2 ^ 53) :: rat)" by (simp only: of_int_le_iff)
  then have m: "\<bar>(of_int m :: rat)\<bar> \<le> 2 ^ 53" by simp
  have "\<bar>of_int m * u\<bar> = \<bar>of_int m\<bar> * u" using u by (simp add: abs_mult)
  also have "\<dots> \<le> 2 ^ 53 * u" using m u by (simp add: mult_right_mono)
  also have "\<dots> = 2 powi (k + 1)" by (simp only: powi_split_53 u_def)
  also have "\<dots> \<le> 2 powi 1023" using k2 by (intro power_int_increasing) simp_all
  also have "\<dots> < 2 powi 1024" by (intro power_int_strict_increasing) simp_all
  finally have r: "\<bar>of_int m * u\<bar> < 2 powi 1024" .
  then have "\<not> 2 powi 1024 \<le> of_int m * u" "\<not> of_int m * u \<le> - (2 powi 1024)"
    by linarith+
  then show ?thesis
    using x0 il e by (simp add: fl_def Let_def u_def [symmetric] m_def [symmetric])
qed

lemma fl_is:
  assumes "2 powi k \<le> \<bar>x\<bar>" and "\<bar>x\<bar> < 2 powi (k + 1)"
    and "- 1022 \<le> k" and "k \<le> 1022"
    and "\<bar>x / 2 powi (k - 52) - of_int m\<bar> < 1 / 2"
  shows "fl x = Num (of_int m * 2 powi (k - 52))"
  using fl_normal [OF assms(1-4)] round_half_even_unique [OF assms(5)] by simp






lemma floor_rat_numeral: "\<lfloor>(numeral a / numeral b :: rat)\<rfloor> = numeral a div numeral b"
  using floor_divide_of_int_eq [of "numeral a" "numeral b", where ?'a = rat] by simp

section \<open>File selection: the synchronous part\<close>

text \<open>
  C9. When the selection is empty (no file list, or no file at index 0) the handler
  returns at once and the whole state, module cache included, is what it was.
\<close>

theorem empty_selection_leaves_state:
  "first_file files = None \<Longrightarrow> handleFileChange env files s = s"
  by (simp add: handleFileChange_def handleFileChange_sync_def)

theorem empty_selection_leaves_state_witness:
  "first_file (Some []) = None \<and>
   handleFileChange sample_browser (Some []) initial_state = initial_state"
  using empty_selection_leaves_state [of "Some []" sample_browser initial_state] by simp

text \<open>
  C2. A file whose MIME type is not \<^verbatim>\<open>application/pdf\<close> never gets a rendered image:
  the handler sets the fixed message and clears image, file name and page count.
\<close>

theorem non_pdf_rejected:
  assumes "first_file files = Some file" and "file_type file \<noteq> ''application/pdf''"
  shows "renderedImage (handleFileChange env files s) = None \<and>
         renderError (handleFileChange env files s) = Some ''Please select a PDF file.'' \<and>
         pdfName (handleFileChange env files s) = None \<and>
         pageCount (handleFileChange env files s) = None"
  using assms by (simp add: handleFileChange_def handleFileChange_sync_def)

theorem non_pdf_rejected_witness:
  "first_file (Some [text_file]) = Some text_file \<and>
   file_type text_file \<noteq> ''application/pdf'' \<and>
   renderedImage (handleFileChange sample_browser (Some [text_file]) initial_state) = None \<and>
   renderError (handleFileChange sample_browser (Some [text_file]) initial_state)
     = Some ''Please select a PDF file.'' \<and>
   pdfName (handleFileChange sample_browser (Some [text_file]) initial_state) = None \<and>
   pageCount (handleFileChange sample_browser (Some [text_file]) initial_state) = None"
  using non_pdf_rejected [of "Some [text_file]" text_file sample_browser initial_state]
  by (simp add: text_file_def)

text \<open>
  C8. For an accepted PDF the synchronous part of the handler, which ends where the
  asynchronous pipeline begins, leaves the zoom level at exactly 1, the error message
  cleared and the rendering flag set; the pipeline then starts from that state.
\<close>

theorem accepted_file_resets:
  assumes "first_file files = Some file" and "file_type file = ''application/pdf''"
  shows "snd (handleFileChange_sync files s) = Some file \<and>
         zoomLevel (fst (handleFileChange_sync files s)) = Num 1 \<and>
         renderError (fst (handleFileChange_sync files s)) = None \<and>
         isRendering (fst (handleFileChange_sync files s)) = True \<and>
         handleFileChange env files s =
           handleFileChange_async env file (fst (handleFileChange_sync files s))"
  using assms by (simp add: handleFileChange_def handleFileChange_sync_def)

theorem accepted_file_resets_witness:
  "first_file (Some [sample_file]) = Some sample_file \<and>
   file_type sample_file = ''application/pdf'' \<and>
   zoomLevel (fst (handleFileChange_sync (Some [sample_file])
     (initial_state\<lparr>renderError := Some ''Please select a PDF file.'',
                     zoomLevel := fl (12 / 10)\<rparr>))) = Num 1 \<and>
   renderError (fst (handleFileChange_sync (Some [sample_file])
     (initial_state\<lparr>renderError := Some ''Please select a PDF file.'',
                     zoomLevel := fl (12 / 10)\<rparr>))) = None \<and>
   isRendering (fst (handleFileChange_sync (Some [sample_file])
     (initial_state\<lparr>renderError := Some ''Please select a PDF file.'',
                     zoomLevel := fl (12 / 10)\<rparr>))) = True"
  using accepted_file_resets [of "Some [sample_file]" sample_file
      "initial_state\<lparr>renderError := Some ''Please select a PDF file.'',
                      zoomLevel := fl (12 / 10)\<rparr>" sample_browser]
  by (simp add: sample_file_def)

section \<open>The rendering pipeline\<close>

text \<open>
  What the \<^verbatim>\<open>try\<close> block leaves untouched, what a run to its end has gone through, and the
  runs of the sample collaborators.
\<close>

lemma try_block_frame:
  "pdfName (fst (try_block env file s)) = pdfName s"
  "isRendering (fst (try_block env file s)) = isRendering s"
  "renderError (fst (try_block env file s)) = renderError s"
  "zoomLevel (fst (try_block env file s)) = zoomLevel s"
  by (simp_all add: try_block_def loadPdfjs_def Let_def split: sum.splits option.splits prod.splits)

lemma try_block_success:
  assumes "snd (try_block env file s) = None"
  shows "\<exists>buffer lib doc pg dataUrl.
           arrayBuffer file = Inr buffer \<and> snd (loadPdfjs env s) = Inr lib \<and>
           getDocument lib buffer = Inr doc \<and> getPage doc 1 = Inr pg \<and>
           draw_page env pg = Inr dataUrl \<and>
           pageCount (fst (try_block env file s)) = Some (numPages doc) \<and>
           renderedImage (fst (try_block env file s)) = Some dataUrl"
  using assms
  by (auto simp add: try_block_def Let_def split: sum.splits prod.splits)

lemma try_block_failure_image:
  assumes "snd (try_block env file s) = Some error"
  shows "renderedImage (fst (try_block env file s)) = renderedImage s"
  using assms
  by (auto simp add: try_block_def loadPdfjs_def Let_def split: sum.splits prod.splits option.splits)


lemma sync_accepted:
  assumes "first_file files = Some file" and "file_type file = ''application/pdf''"
  shows "handleFileChange_sync files s =
           (s\<lparr>pdfName := Some (file_name file), zoomLevel := Num 1,
              renderError := None, isRendering := True\<rparr>, Some file)"
  using assms by (simp add: handleFileChange_sync_def)

lemma handleFileChange_accepted:
  assumes "first_file files = Some file" and "file_type file = ''application/pdf''"
  shows "handleFileChange env files s =
           handleFileChange_async env file (fst (handleFileChange_sync files s))"
  using assms by (simp add: handleFileChange_def handleFileChange_sync_def)

lemma async_success:
  assumes "snd (try_block env file s) = None"
  shows "handleFileChange_async env file s = (fst (try_block env file s))\<lparr>isRendering := False\<rparr>"
  using assms by (cases "try_block env file s") (simp add: handleFileChange_async_def)


lemma loadPdfjs_sync:
  "snd (loadPdfjs env (fst (handleFileChange_sync files s))) = snd (loadPdfjs env s)"
  by (simp add: loadPdfjs_def handleFileChange_sync_def split: option.splits)


lemma sample_accepted:
  "first_file (Some [sample_file]) = Some sample_file"
  "file_type sample_file = ''application/pdf''"
  "first_file (Some [second_file]) = Some second_file"
  "file_type second_file = ''application/pdf''"
  "first_file (Some [empty_file]) = Some empty_file"
  "file_type empty_file = ''application/pdf''"
  by (simp_all add: sample_file_def second_file_def empty_file_def)

lemma sample_run:
  "handleFileChange sample_browser (Some [sample_file]) initial_state =
     \<lparr>cachedPdfjs = Some (Inr sample_lib),
      renderedImage = Some ''data:image/jpeg;base64,AAAA'',
      pdfName = Some ''invoice.pdf'', isRendering = False, renderError = None,
      pageCount = Some 1, zoomLevel = Num 1\<rparr>"
  by (simp add: handleFileChange_def handleFileChange_async_def
        try_block_def handleFileChange_sync_def loadPdfjs_def initial_state_def
        sample_browser_def sample_file_def sample_lib_def sample_pdf_def sample_page_def
        draw_page_def)

lemma sample_try_ok:
  "snd (try_block sample_browser sample_file
          (fst (handleFileChange_sync (Some [sample_file]) initial_state))) = None"
  by (simp add: try_block_def handleFileChange_sync_def loadPdfjs_def initial_state_def
        sample_browser_def sample_file_def sample_lib_def sample_pdf_def sample_page_def
        draw_page_def)

lemma second_try_ok:
  "snd (try_block sample_browser second_file
          (fst (handleFileChange_sync (Some [second_file])
             (handleFileChange sample_browser (Some [sample_file]) initial_state)))) = None"
  by (simp add: sample_run)
     (simp add: try_block_def handleFileChange_sync_def loadPdfjs_def
        sample_browser_def second_file_def sample_lib_def sample_pdf_def sample_page_def
        draw_page_def)










section \<open>The life of the rendered image\<close>







lemma preview_independent:
  assumes "cachedPdfjs s0 = cachedPdfjs s"
    and "first_file files = Some f" and "file_type f = ''application/pdf''"
  shows "preview (handleFileChange env files s0) = preview (handleFileChange env files s)"
  using assms
  by (simp add: preview_def handleFileChange_def handleFileChange_sync_def
      handleFileChange_async_def try_block_def loadPdfjs_def catch_block_def Let_def
      split: sum.splits option.splits prod.splits)


text \<open>
  C7. When a first PDF has rendered successfully and a second one then renders
  successfully, file name, rendered image and page count are those of the second file:
  its name, the data URL drawn from its first page and the page count of its document.
  The three fields are the same from any other state with the same cached library, so
  nothing of the first file is left in them.
\<close>

theorem second_upload_replaces_preview:
  assumes first: "first_file files1 = Some f1" "file_type f1 = ''application/pdf''"
      "snd (try_block env1 f1 (fst (handleFileChange_sync files1 s))) = None"
    and second: "first_file files2 = Some f2" "file_type f2 = ''application/pdf''"
      "snd (try_block env2 f2
         (fst (handleFileChange_sync files2 (handleFileChange env1 files1 s)))) = None"
  shows "(\<exists>buffer lib doc pg dataUrl.
            arrayBuffer f2 = Inr buffer \<and>
            snd (loadPdfjs env2 (handleFileChange env1 files1 s)) = Inr lib \<and>
            getDocument lib buffer = Inr doc \<and> getPage doc 1 = Inr pg \<and>
            draw_page env2 pg = Inr dataUrl \<and>
            preview (handleFileChange env2 files2 (handleFileChange env1 files1 s))
              = (Some (file_name f2), Some dataUrl, Some (numPages doc))) \<and>
         (\<forall>s0. cachedPdfjs s0 = cachedPdfjs (handleFileChange env1 files1 s) \<longrightarrow>
            preview (handleFileChange env2 files2 s0)
              = preview (handleFileChange env2 files2 (handleFileChange env1 files1 s)))"
proof (intro conjI allI impI)
  let ?s1 = "handleFileChange env1 files1 s"
  let ?b = "fst (handleFileChange_sync files2 ?s1)"
  from try_block_success [OF second(3)] obtain buffer lib doc pg dataUrl where
    w: "arrayBuffer f2 = Inr buffer" "snd (loadPdfjs env2 ?b) = Inr lib"
      "getDocument lib buffer = Inr doc" "getPage doc 1 = Inr pg"
      "draw_page env2 pg = Inr dataUrl"
      "pageCount (fst (try_block env2 f2 ?b)) = Some (numPages doc)"
      "renderedImage (fst (try_block env2 f2 ?b)) = Some dataUrl"
    by blast
  have name: "pdfName (fst (try_block env2 f2 ?b)) = Some (file_name f2)"
    using second(1,2) by (simp add: try_block_frame sync_accepted)
  have "preview (handleFileChange env2 files2 ?s1)
      = (Some (file_name f2), Some dataUrl, Some (numPages doc))"
    using w(6,7) name second(3)
    by (simp add: preview_def handleFileChange_accepted [OF second(1,2)] async_success)
  with w(1-5) show "\<exists>buffer lib doc pg dataUrl.
            arrayBuffer f2 = Inr buffer \<and>
            snd (loadPdfjs env2 ?s1) = Inr lib \<and>
            getDocument lib buffer = Inr doc \<and> getPage doc 1 = Inr pg \<and>
            draw_page env2 pg = Inr dataUrl \<and>
            preview (handleFileChange env2 files2 ?s1)
              = (Some (file_name f2), Some dataUrl, Some (numPages doc))"
    unfolding loadPdfjs_sync by blast
next
  fix s0 :: state
  assume "cachedPdfjs s0 = cachedPdfjs (handleFileChange env1 files1 s)"
  then show "preview (handleFileChange env2 files2 s0)
      = preview (handleFileChange env2 files2 (handleFileChange env1 files1 s))"
    using second(1,2) by (rule preview_independent)
qed

theorem second_upload_replaces_preview_witness:
  "first_file (Some [sample_file]) = Some sample_file \<and>
   file_type sample_file = ''application/pdf'' \<and>
   snd (try_block sample_browser sample_file
          (fst (handleFileChange_sync (Some [sample_file]) initial_state))) = None \<and>
   first_file (Some [second_file]) = Some second_file \<and>
   file_type second_file = ''application/pdf'' \<and>
   snd (try_block sample_browser second_file
          (fst (handleFileChange_sync (Some [second_file])
             (handleFileChange sample_browser (Some [sample_file]) initial_state)))) = None \<and>
   preview (handleFileChange sample_browser (Some [sample_file]) initial_state)
     = (Some ''invoice.pdf'', Some ''data:image/jpeg;base64,AAAA'', Some 1) \<and>
   preview (handleFileChange sample_browser (Some [second_file])
      (handleFileChange sample_browser (Some [sample_file]) initial_state))
     = (Some ''letter.pdf'', Some ''data:image/jpeg;base64,AAAAAAAA'', Some 2)"
proof -
  let ?s1 = "handleFileChange sample_browser (Some [sample_file]) initial_state"
  let ?s0 = "initial_state\<lparr>cachedPdfjs := Some (Inr sample_lib)\<rparr>"
  note a = second_upload_replaces_preview [OF sample_accepted(1,2) sample_try_ok
      sample_accepted(3,4) second_try_ok]
  have "cachedPdfjs ?s0 = cachedPdfjs ?s1" by (simp add: sample_run)
  with a have "preview (handleFileChange sample_browser (Some [second_file]) ?s0)
      = preview (handleFileChange sample_browser (Some [second_file]) ?s1)"
    by blast
  moreover have "preview (handleFileChange sample_browser (Some [second_file]) ?s0)
      = (Some ''letter.pdf'', Some ''data:image/jpeg;base64,AAAAAAAA'', Some 2)"
    by (simp add: preview_def handleFileChange_def handleFileChange_async_def
        try_block_def handleFileChange_sync_def loadPdfjs_def initial_state_def
        sample_browser_def second_file_def sample_lib_def sample_pdf_def sample_page_def
        draw_page_def)
  moreover have "preview ?s1 = (Some ''invoice.pdf'', Some ''data:image/jpeg;base64,AAAA'', Some 1)"
    by (simp add: sample_run preview_def)
  ultimately show ?thesis
    using sample_accepted sample_try_ok second_try_ok by simp
qed


section \<open>The zoom level\<close>

text \<open>
  The doubles that the zoom controller meets: the eleven decimals, the step 0.1, and every
  sum and difference the two handlers form from them.
\<close>

lemma fl_4_5: "fl (4 / 5) = Num (3602879701896397 / 4503599627370496)"
  using fl_is [of "- 1" "4 / 5" 7205759403792794] by simp

lemma fl_9_10: "fl (9 / 10) = Num (8106479329266893 / 9007199254740992)"
  using fl_is [of "- 1" "9 / 10" 8106479329266893] by simp

lemma fl_1_1: "fl 1 = Num 1"
  using fl_is [of "0" "1" 4503599627370496] by simp

lemma fl_11_10: "fl (11 / 10) = Num (2476979795053773 / 2251799813685248)"
  using fl_is [of "0" "11 / 10" 4953959590107546] by simp

lemma fl_6_5: "fl (6 / 5) = Num (5404319552844595 / 4503599627370496)"
  using fl_is [of "0" "6 / 5" 5404319552844595] by simp

lemma fl_13_10: "fl (13 / 10) = Num (5854679515581645 / 4503599627370496)"
  using fl_is [of "0" "13 / 10" 5854679515581645] by simp

lemma fl_7_5: "fl (7 / 5) = Num (3152519739159347 / 2251799813685248)"
  using fl_is [of "0" "7 / 5" 6305039478318694] by simp

lemma fl_3_2: "fl (3 / 2) = Num (3 / 2)"
  using fl_is [of "0" "3 / 2" 6755399441055744] by simp

lemma fl_8_5: "fl (8 / 5) = Num (3602879701896397 / 2251799813685248)"
  using fl_is [of "0" "8 / 5" 7205759403792794] by simp

lemma fl_17_10: "fl (17 / 10) = Num (7656119366529843 / 4503599627370496)"
  using fl_is [of "0" "17 / 10" 7656119366529843] by simp

lemma fl_9_5: "fl (9 / 5) = Num (8106479329266893 / 4503599627370496)"
  using fl_is [of "0" "9 / 5" 8106479329266893] by simp

lemma fl_1_10: "fl (1 / 10) = Num (3602879701896397 / 36028797018963968)"
  using fl_is [of "- 4" "1 / 10" 7205759403792794] by simp

lemma fl_32425917317067573_36028797018963968: "fl (32425917317067573 / 36028797018963968) = Num (8106479329266893 / 9007199254740992)"
  using fl_is [of "- 1" "32425917317067573 / 36028797018963968" 8106479329266893] by simp

lemma fl_25220157913274779_36028797018963968: "fl (25220157913274779 / 36028797018963968) = Num (6305039478318695 / 9007199254740992)"
  using fl_is [of "- 1" "25220157913274779 / 36028797018963968" 6305039478318695] by simp

lemma fl_36028797018963969_36028797018963968: "fl (36028797018963969 / 36028797018963968) = Num 1"
  using fl_is [of "0" "36028797018963969 / 36028797018963968" 4503599627370496] by simp

lemma fl_28823037615171175_36028797018963968: "fl (28823037615171175 / 36028797018963968) = Num (3602879701896397 / 4503599627370496)"
  using fl_is [of "- 1" "28823037615171175 / 36028797018963968" 7205759403792794] by simp

lemma fl_39631676720860365_36028797018963968: "fl (39631676720860365 / 36028797018963968) = Num (2476979795053773 / 2251799813685248)"
  using fl_is [of "0" "39631676720860365 / 36028797018963968" 4953959590107546] by simp

lemma fl_32425917317067571_36028797018963968: "fl (32425917317067571 / 36028797018963968) = Num (8106479329266893 / 9007199254740992)"
  using fl_is [of "- 1" "32425917317067571 / 36028797018963968" 8106479329266893] by simp

lemma fl_43234556422756765_36028797018963968: "fl (43234556422756765 / 36028797018963968) = Num (1351079888211149 / 1125899906842624)"
  using fl_is [of "0" "43234556422756765 / 36028797018963968" 5404319552844596] by simp

lemma fl_36028797018963971_36028797018963968: "fl (36028797018963971 / 36028797018963968) = Num 1"
  using fl_is [of "0" "36028797018963971 / 36028797018963968" 4503599627370496] by simp

lemma fl_46837436124653157_36028797018963968: "fl (46837436124653157 / 36028797018963968) = Num (5854679515581645 / 4503599627370496)"
  using fl_is [of "0" "46837436124653157 / 36028797018963968" 5854679515581645] by simp

lemma fl_39631676720860363_36028797018963968: "fl (39631676720860363 / 36028797018963968) = Num (4953959590107545 / 4503599627370496)"
  using fl_is [of "0" "39631676720860363 / 36028797018963968" 4953959590107545] by simp

lemma fl_50440315826549557_36028797018963968: "fl (50440315826549557 / 36028797018963968) = Num (6305039478318695 / 4503599627370496)"
  using fl_is [of "0" "50440315826549557 / 36028797018963968" 6305039478318695] by simp

lemma fl_43234556422756763_36028797018963968: "fl (43234556422756763 / 36028797018963968) = Num (5404319552844595 / 4503599627370496)"
  using fl_is [of "0" "43234556422756763 / 36028797018963968" 5404319552844595] by simp

lemma fl_54043195528445949_36028797018963968: "fl (54043195528445949 / 36028797018963968) = Num (3 / 2)"
  using fl_is [of "0" "54043195528445949 / 36028797018963968" 6755399441055744] by simp

lemma fl_46837436124653155_36028797018963968: "fl (46837436124653155 / 36028797018963968) = Num (1463669878895411 / 1125899906842624)"
  using fl_is [of "0" "46837436124653155 / 36028797018963968" 5854679515581644] by simp

lemma fl_57646075230342349_36028797018963968: "fl (57646075230342349 / 36028797018963968) = Num (3602879701896397 / 2251799813685248)"
  using fl_is [of "0" "57646075230342349 / 36028797018963968" 7205759403792794] by simp

lemma fl_50440315826549555_36028797018963968: "fl (50440315826549555 / 36028797018963968) = Num (3152519739159347 / 2251799813685248)"
  using fl_is [of "0" "50440315826549555 / 36028797018963968" 6305039478318694] by simp

lemma fl_61248954932238749_36028797018963968: "fl (61248954932238749 / 36028797018963968) = Num (1914029841632461 / 1125899906842624)"
  using fl_is [of "0" "61248954932238749 / 36028797018963968" 7656119366529844] by simp

lemma fl_54043195528445955_36028797018963968: "fl (54043195528445955 / 36028797018963968) = Num (3 / 2)"
  using fl_is [of "0" "54043195528445955 / 36028797018963968" 6755399441055744] by simp

lemma fl_64851834634135141_36028797018963968: "fl (64851834634135141 / 36028797018963968) = Num (8106479329266893 / 4503599627370496)"
  using fl_is [of "0" "64851834634135141 / 36028797018963968" 8106479329266893] by simp

lemma fl_57646075230342347_36028797018963968: "fl (57646075230342347 / 36028797018963968) = Num (7205759403792793 / 4503599627370496)"
  using fl_is [of "0" "57646075230342347 / 36028797018963968" 7205759403792793] by simp

lemma fl_68454714336031541_36028797018963968: "fl (68454714336031541 / 36028797018963968) = Num (8556839292003943 / 4503599627370496)"
  using fl_is [of "0" "68454714336031541 / 36028797018963968" 8556839292003943] by simp

lemma fl_61248954932238747_36028797018963968: "fl (61248954932238747 / 36028797018963968) = Num (7656119366529843 / 4503599627370496)"
  using fl_is [of "0" "61248954932238747 / 36028797018963968" 7656119366529843] by simp

lemmas fl_zoom =
  fl_4_5
  fl_9_10
  fl_1_1
  fl_11_10
  fl_6_5
  fl_13_10
  fl_7_5
  fl_3_2
  fl_8_5
  fl_17_10
  fl_9_5
  fl_1_10
  fl_32425917317067573_36028797018963968
  fl_25220157913274779_36028797018963968
  fl_36028797018963969_36028797018963968
  fl_28823037615171175_36028797018963968
  fl_39631676720860365_36028797018963968
  fl_32425917317067571_36028797018963968
  fl_43234556422756765_36028797018963968
  fl_36028797018963971_36028797018963968
  fl_46837436124653157_36028797018963968
  fl_39631676720860363_36028797018963968
  fl_50440315826549557_36028797018963968
  fl_43234556422756763_36028797018963968
  fl_54043195528445949_36028797018963968
  fl_46837436124653155_36028797018963968
  fl_57646075230342349_36028797018963968
  fl_50440315826549555_36028797018963968
  fl_61248954932238749_36028797018963968
  fl_54043195528445955_36028797018963968
  fl_64851834634135141_36028797018963968
  fl_57646075230342347_36028797018963968
  fl_68454714336031541_36028797018963968
  fl_61248954932238747_36028797018963968

lemma zoom_in_8: "zoom_in_update (Num (3602879701896397 / 4503599627370496)) = Num (8106479329266893 / 9007199254740992)"
  by (simp add: zoom_in_update_def fl_zoom floor_rat_numeral)

lemma zoom_out_8: "zoom_out_update (Num (3602879701896397 / 4503599627370496)) = Num (3602879701896397 / 4503599627370496)"
  by (simp add: zoom_out_update_def js_sub_def fl_zoom floor_rat_numeral)

lemma zoom_in_9: "zoom_in_update (Num (8106479329266893 / 9007199254740992)) = Num 1"
  by (simp add: zoom_in_update_def fl_zoom floor_rat_numeral)

lemma zoom_out_9: "zoom_out_update (Num (8106479329266893 / 9007199254740992)) = Num (3602879701896397 / 4503599627370496)"
  by (simp add: zoom_out_update_def js_sub_def fl_zoom floor_rat_numeral)

lemma zoom_in_10: "zoom_in_update (Num 1) = Num (2476979795053773 / 2251799813685248)"
  by (simp add: zoom_in_update_def fl_zoom floor_rat_numeral)

lemma zoom_out_10: "zoom_out_update (Num 1) = Num (8106479329266893 / 9007199254740992)"
  by (simp add: zoom_out_update_def js_sub_def fl_zoom floor_rat_numeral)

lemma zoom_in_11: "zoom_in_update (Num (2476979795053773 / 2251799813685248)) = Num (5404319552844595 / 4503599627370496)"
  by (simp add: zoom_in_update_def fl_zoom floor_rat_numeral)

lemma zoom_out_11: "zoom_out_update (Num (2476979795053773 / 2251799813685248)) = Num 1"
  by (simp add: zoom_out_update_def js_sub_def fl_zoom floor_rat_numeral)

lemma zoom_in_12: "zoom_in_update (Num (5404319552844595 / 4503599627370496)) = Num (5854679515581645 / 4503599627370496)"
  by (simp add: zoom_in_update_def fl_zoom floor_rat_numeral)

lemma zoom_out_12: "zoom_out_update (Num (5404319552844595 / 4503599627370496)) = Num (2476979795053773 / 2251799813685248)"
  by (simp add: zoom_out_update_def js_sub_def fl_zoom floor_rat_numeral)

lemma zoom_in_13: "zoom_in_update (Num (5854679515581645 / 4503599627370496)) = Num (3152519739159347 / 2251799813685248)"
  by (simp add: zoom_in_update_def fl_zoom floor_rat_numeral)

lemma zoom_out_13: "zoom_out_update (Num (5854679515581645 / 4503599627370496)) = Num (5404319552844595 / 4503599627370496)"
  by (simp add: zoom_out_update_def js_sub_def fl_zoom floor_rat_numeral)

lemma zoom_in_14: "zoom_in_update (Num (3152519739159347 / 2251799813685248)) = Num (3 / 2)"
  by (simp add: zoom_in_update_def fl_zoom floor_rat_numeral)

lemma zoom_out_14: "zoom_out_update (Num (3152519739159347 / 2251799813685248)) = Num (5854679515581645 / 4503599627370496)"
  by (simp add: zoom_out_update_def js_sub_def fl_zoom floor_rat_numeral)

lemma zoom_in_15: "zoom_in_update (Num (3 / 2)) = Num (3602879701896397 / 2251799813685248)"
  by (simp add: zoom_in_update_def fl_zoom floor_rat_numeral)

lemma zoom_out_15: "zoom_out_update (Num (3 / 2)) = Num (3152519739159347 / 2251799813685248)"
  by (simp add: zoom_out_update_def js_sub_def fl_zoom floor_rat_numeral)

lemma zoom_in_16: "zoom_in_update (Num (3602879701896397 / 2251799813685248)) = Num (7656119366529843 / 4503599627370496)"
  by (simp add: zoom_in_update_def fl_zoom floor_rat_numeral)

lemma zoom_out_16: "zoom_out_update (Num (3602879701896397 / 2251799813685248)) = Num (3 / 2)"
  by (simp add: zoom_out_update_def js_sub_def fl_zoom floor_rat_numeral)

lemma zoom_in_17: "zoom_in_update (Num (7656119366529843 / 4503599627370496)) = Num (8106479329266893 / 4503599627370496)"
  by (simp add: zoom_in_update_def fl_zoom floor_rat_numeral)

lemma zoom_out_17: "zoom_out_update (Num (7656119366529843 / 4503599627370496)) = Num (3602879701896397 / 2251799813685248)"
  by (simp add: zoom_out_update_def js_sub_def fl_zoom floor_rat_numeral)

lemma zoom_in_18: "zoom_in_update (Num (8106479329266893 / 4503599627370496)) = Num (8106479329266893 / 4503599627370496)"
  by (simp add: zoom_in_update_def fl_zoom floor_rat_numeral)

lemma zoom_out_18: "zoom_out_update (Num (8106479329266893 / 4503599627370496)) = Num (7656119366529843 / 4503599627370496)"
  by (simp add: zoom_out_update_def js_sub_def fl_zoom floor_rat_numeral)


lemmas zoom_in_steps = zoom_in_8 zoom_in_9 zoom_in_10 zoom_in_11 zoom_in_12 zoom_in_13
  zoom_in_14 zoom_in_15 zoom_in_16 zoom_in_17 zoom_in_18

lemmas zoom_out_steps = zoom_out_8 zoom_out_9 zoom_out_10 zoom_out_11 zoom_out_12 zoom_out_13
  zoom_out_14 zoom_out_15 zoom_out_16 zoom_out_17 zoom_out_18

lemma spec_zoom_levels_eval:
  "spec_zoom_levels = [4 / 5, 9 / 10, 1, 11 / 10, 6 / 5, 13 / 10, 7 / 5, 3 / 2, 8 / 5, 17 / 10, 9 / 5]"
  by (simp add: spec_zoom_levels_def upt_rec_numeral)

lemma zoom_closed_all:
  "list_all (\<lambda>d. zoom_in_update (fl d) \<in> fl ` set spec_zoom_levels \<and>
                 zoom_out_update (fl d) \<in> fl ` set spec_zoom_levels) spec_zoom_levels"
  by (simp add: spec_zoom_levels_eval fl_zoom zoom_in_steps zoom_out_steps)

lemma zoom_closed:
  assumes "v \<in> fl ` set spec_zoom_levels"
  shows "zoom_in_update v \<in> fl ` set spec_zoom_levels"
    and "zoom_out_update v \<in> fl ` set spec_zoom_levels"
  using assms zoom_closed_all by (auto simp add: list_all_iff)

lemma zoom_refines_all:
  "list_all (\<lambda>d. zoom_out_update (fl d) = fl (spec_decrement d) \<and>
                 zoom_in_update (fl d) = fl (spec_increment d)) spec_zoom_levels"
  by (simp add: spec_zoom_levels_eval fl_zoom zoom_in_steps zoom_out_steps spec_round2_def spec_decrement_def spec_increment_def
      floor_rat_numeral)

lemma zoom_bounds_all:
  "list_all (\<lambda>d. js_le (fl (8 / 10)) (fl d) \<and> js_le (fl d) (fl (18 / 10))) spec_zoom_levels"
  by (simp add: spec_zoom_levels_eval fl_zoom)

lemma one_in_spec_zoom_levels: "Num 1 \<in> fl ` set spec_zoom_levels"
  by (simp add: spec_zoom_levels_eval fl_zoom)

lemma async_zoom: "zoomLevel (handleFileChange_async env f s) = zoomLevel s"
proof (cases "try_block env f s")
  case (Pair s1 r)
  then have "zoomLevel s1 = zoomLevel s"
    using try_block_frame(4) [of env f s] by simp
  then show ?thesis
    using Pair by (simp add: handleFileChange_async_def catch_block_def split: option.splits)
qed

lemma handleFileChange_zoom:
  "zoomLevel (handleFileChange env files s) = zoomLevel s \<or>
   zoomLevel (handleFileChange env files s) = Num 1"
  by (simp add: handleFileChange_def handleFileChange_sync_def async_zoom
      split: option.splits)

lemma zoom_reachable:
  "zoomLevel (foldl handle initial_state evs) \<in> fl ` set spec_zoom_levels"
proof (induction evs rule: rev_induct)
  case Nil
  then show ?case using one_in_spec_zoom_levels by (simp add: initial_state_def)
next
  case (snoc ev evs)
  show ?case
  proof (cases ev)
    case (FileChange env files)
    then show ?thesis
      using snoc handleFileChange_zoom [of env files "foldl handle initial_state evs"]
        one_in_spec_zoom_levels by auto
  next
    case (Click c)
    then show ?thesis
      using snoc zoom_closed [of "zoomLevel (foldl handle initial_state evs)"]
        one_in_spec_zoom_levels
      by (cases c) (simp_all add: handleZoomIn_def handleZoomOut_def handleZoomReset_def)
  qed
qed

lemma funpow_zoom_in:
  "zoomLevel ((handleZoomIn ^^ n) s) = (zoom_in_update ^^ n) (zoomLevel s)"
  by (induction n) (simp_all add: handleZoomIn_def)

lemma funpow_zoom_out:
  "zoomLevel ((handleZoomOut ^^ n) s) = (zoom_out_update ^^ n) (zoomLevel s)"
  by (induction n) (simp_all add: handleZoomOut_def)

lemma funpow_fixed: "f x = x \<Longrightarrow> (f ^^ n) x = x"
  by (induction n) simp_all

lemma zoom_in_saturates: "(zoom_in_update ^^ (8 + n)) (Num 1) = fl (18 / 10)"
proof -
  have "(zoom_in_update ^^ 8) (Num 1) = fl (18 / 10)"
    by (simp add: eval_nat_numeral zoom_in_steps fl_zoom)
  moreover have "(zoom_in_update ^^ n) (fl (18 / 10)) = fl (18 / 10)"
    by (rule funpow_fixed) (simp add: zoom_in_steps fl_zoom)
  moreover have "(zoom_in_update ^^ (8 + n)) (Num 1)
      = (zoom_in_update ^^ n) ((zoom_in_update ^^ 8) (Num 1))"
    by (simp only: add.commute [of 8 n] funpow_add o_apply)
  ultimately show ?thesis by (simp only:)
qed

lemma zoom_out_saturates: "(zoom_out_update ^^ (2 + n)) (Num 1) = fl (8 / 10)"
proof -
  have "(zoom_out_update ^^ 2) (Num 1) = fl (8 / 10)"
    by (simp add: eval_nat_numeral zoom_out_steps fl_zoom)
  moreover have "(zoom_out_update ^^ n) (fl (8 / 10)) = fl (8 / 10)"
    by (rule funpow_fixed) (simp add: zoom_out_steps fl_zoom)
  moreover have "(zoom_out_update ^^ (2 + n)) (Num 1)
      = (zoom_out_update ^^ n) ((zoom_out_update ^^ 2) (Num 1))"
    by (simp only: add.commute [of 2 n] funpow_add o_apply)
  ultimately show ?thesis by (simp only:)
qed

lemma Number_toFixed_2:
  assumes "\<bar>x\<bar> < 10 ^ 21"
  shows "Number (toFixed 2 (Num x)) = fl (spec_round2 x)"
proof -
  define z where "z = \<lfloor>\<bar>x\<bar> * 10 ^ 2 + 1 / 2\<rfloor>"
  have "0 \<le> \<bar>x\<bar> * 10 ^ 2 + 1 / 2" by simp
  then have "0 \<le> z" unfolding z_def by (simp only: zero_le_floor)
  then have n: "(of_nat (nat z) :: rat) = of_int z" by (simp only: of_nat_nat)
  have "\<not> 10 ^ 21 \<le> \<bar>x\<bar>" using assms by simp
  then have "Number (toFixed 2 (Num x)) = fl ((if x < 0 then - 1 else 1) * of_int z / 10 ^ 2)"
    by (simp only: toFixed.simps Number.simps z_def [symmetric] n if_False)
  also have "(if x < 0 then - 1 else 1) * of_int z / 10 ^ 2 = spec_round2 x"
  proof (cases "x = 0")
    case True
    have "\<lfloor>(1 / 2 :: rat)\<rfloor> = 0" by (rule floor_unique) simp_all
    with True show ?thesis by (simp add: spec_round2_def z_def)
  next
    case False
    then show ?thesis by (simp add: spec_round2_def sgn_if z_def)
  qed
  finally show ?thesis .
qed

lemma spec_round2_decimals:
  "list_all (\<lambda>d. spec_decrement d = max (8 / 10) (d - 1 / 10) \<and>
                 spec_increment d = min (18 / 10) (d + 1 / 10)) spec_zoom_levels"
  by (simp add: spec_zoom_levels_eval spec_round2_def spec_decrement_def spec_increment_def floor_rat_numeral)

text \<open>
  C3. After any sequence of events from the initial state (clicks on the three zoom
  buttons, and file selections, which reset the zoom) the zoom level lies between the
  doubles 0.8 and 1.8. Eight or more increments from 1.0 give exactly 1.8, two or more
  decrements give exactly 0.8.
\<close>

theorem zoom_level_bounded:
  "js_le (fl (8 / 10)) (zoomLevel (foldl handle initial_state evs)) \<and>
   js_le (zoomLevel (foldl handle initial_state evs)) (fl (18 / 10)) \<and>
   zoomLevel ((handleZoomIn ^^ (8 + n)) initial_state) = fl (18 / 10) \<and>
   zoomLevel ((handleZoomOut ^^ (2 + n)) initial_state) = fl (8 / 10)"
proof -
  have "zoomLevel (foldl handle initial_state evs) \<in> fl ` set spec_zoom_levels"
    by (rule zoom_reachable)
  then have "js_le (fl (8 / 10)) (zoomLevel (foldl handle initial_state evs)) \<and>
      js_le (zoomLevel (foldl handle initial_state evs)) (fl (18 / 10))"
    using zoom_bounds_all by (auto simp add: list_all_iff)
  moreover have "zoomLevel initial_state = Num 1" by (simp add: initial_state_def)
  ultimately show ?thesis
    by (simp only: funpow_zoom_in funpow_zoom_out zoom_in_saturates zoom_out_saturates)
qed

theorem zoom_level_bounded_witness:
  "js_le (fl (8 / 10)) (zoomLevel (foldl handle initial_state [Click ZoomIn, Click ZoomIn])) \<and>
   js_le (zoomLevel (foldl handle initial_state [Click ZoomIn, Click ZoomIn])) (fl (18 / 10)) \<and>
   zoomLevel ((handleZoomIn ^^ (8 + 3)) initial_state) = fl (18 / 10) \<and>
   zoomLevel ((handleZoomOut ^^ (2 + 3)) initial_state) = fl (8 / 10)"
  using zoom_level_bounded [of "[Click ZoomIn, Click ZoomIn]" 3] .

text \<open>
  C4. Decrement and increment return the value \<^verbatim>\<open>next\<close> rounded to two decimals and read
  back as a double, where \<^verbatim>\<open>next\<close> is \<^verbatim>\<open>Math.max(0.8, value - 0.1)\<close> or
  \<^verbatim>\<open>Math.min(1.8, value + 0.1)\<close>. Every zoom level that the component can hold is the
  double of one of the eleven decimals \<open>d\<close>, and there the two handlers agree with the
  specification computed on exact decimals: the double of \<open>max(0.8, d - 0.1)\<close> and of
  \<open>min(1.8, d + 0.1)\<close>, so that no floating-point drift is carried over. Reset gives
  exactly 1 from any state.
\<close>

theorem zoom_operations_compute:
  "(Math_max (fl (8 / 10)) (js_sub v (fl (1 / 10))) = Num x \<and> \<bar>x\<bar> < 10 ^ 21 \<longrightarrow>
      zoom_out_update v = fl (spec_round2 x)) \<and>
   (Math_min (fl (18 / 10)) (js_add v (fl (1 / 10))) = Num y \<and> \<bar>y\<bar> < 10 ^ 21 \<longrightarrow>
      zoom_in_update v = fl (spec_round2 y)) \<and>
   (\<exists>d \<in> set spec_zoom_levels.
      zoomLevel (foldl handle initial_state evs) = fl d \<and>
      zoomLevel (handleZoomOut (foldl handle initial_state evs))
        = fl (spec_decrement d) \<and>
      spec_decrement d = max (8 / 10) (d - 1 / 10) \<and>
      zoomLevel (handleZoomIn (foldl handle initial_state evs))
        = fl (spec_increment d) \<and>
      spec_increment d = min (18 / 10) (d + 1 / 10)) \<and>
   zoomLevel (handleZoomReset s) = Num 1"
proof (intro conjI impI)
  assume "Math_max (fl (8 / 10)) (js_sub v (fl (1 / 10))) = Num x \<and> \<bar>x\<bar> < 10 ^ 21"
  then show "zoom_out_update v = fl (spec_round2 x)"
    by (simp only: zoom_out_update_def Let_def Number_toFixed_2)
next
  assume "Math_min (fl (18 / 10)) (js_add v (fl (1 / 10))) = Num y \<and> \<bar>y\<bar> < 10 ^ 21"
  then show "zoom_in_update v = fl (spec_round2 y)"
    by (simp only: zoom_in_update_def Let_def Number_toFixed_2)
next
  from zoom_reachable [of evs] obtain d where
    d: "d \<in> set spec_zoom_levels" "zoomLevel (foldl handle initial_state evs) = fl d" by auto
  from d(1) zoom_refines_all spec_round2_decimals have
    "zoom_out_update (fl d) = fl (spec_decrement d)"
    "zoom_in_update (fl d) = fl (spec_increment d)"
    "spec_decrement d = max (8 / 10) (d - 1 / 10)"
    "spec_increment d = min (18 / 10) (d + 1 / 10)"
    by (simp_all only: list_all_iff)
  with d show "\<exists>d \<in> set spec_zoom_levels.
      zoomLevel (foldl handle initial_state evs) = fl d \<and>
      zoomLevel (handleZoomOut (foldl handle initial_state evs))
        = fl (spec_decrement d) \<and>
      spec_decrement d = max (8 / 10) (d - 1 / 10) \<and>
      zoomLevel (handleZoomIn (foldl handle initial_state evs))
        = fl (spec_increment d) \<and>
      spec_increment d = min (18 / 10) (d + 1 / 10)"
    by (intro bexI [of _ d]) (simp_all add: handleZoomOut_def handleZoomIn_def)
next
  show "zoomLevel (handleZoomReset s) = Num 1" by (simp add: handleZoomReset_def)
qed

theorem zoom_operations_compute_witness:
  "Math_max (fl (8 / 10)) (js_sub (fl (12 / 10)) (fl (1 / 10)))
     = Num (4953959590107545 / 4503599627370496) \<and>
   \<bar>4953959590107545 / 4503599627370496 :: rat\<bar> < 10 ^ 21 \<and>
   spec_round2 (4953959590107545 / 4503599627370496) = 11 / 10 \<and>
   zoom_out_update (fl (12 / 10)) = fl (11 / 10) \<and>
   Math_min (fl (18 / 10)) (js_add (fl (12 / 10)) (fl (1 / 10)))
     = Num (5854679515581645 / 4503599627370496) \<and>
   \<bar>5854679515581645 / 4503599627370496 :: rat\<bar> < 10 ^ 21 \<and>
   spec_round2 (5854679515581645 / 4503599627370496) = 13 / 10 \<and>
   zoom_in_update (fl (12 / 10)) = fl (13 / 10) \<and>
   zoomLevel (handleZoomReset (initial_state\<lparr>zoomLevel := fl (12 / 10)\<rparr>)) = Num 1"
proof -
  have a: "Math_max (fl (8 / 10)) (js_sub (fl (12 / 10)) (fl (1 / 10)))
      = Num (4953959590107545 / 4503599627370496)"
    by (simp add: js_sub_def fl_zoom)
  have b: "Math_min (fl (18 / 10)) (js_add (fl (12 / 10)) (fl (1 / 10)))
      = Num (5854679515581645 / 4503599627370496)"
    by (simp add: fl_zoom)
  have r: "spec_round2 (4953959590107545 / 4503599627370496) = 11 / 10"
      "spec_round2 (5854679515581645 / 4503599627370496) = 13 / 10"
    by (simp_all add: spec_round2_def floor_rat_numeral)
  have s: "\<bar>4953959590107545 / 4503599627370496 :: rat\<bar> < 10 ^ 21"
      "\<bar>5854679515581645 / 4503599627370496 :: rat\<bar> < 10 ^ 21"
    by simp_all
  note t = zoom_operations_compute [of "fl (12 / 10)" "4953959590107545 / 4503599627370496"
      "5854679515581645 / 4503599627370496" "[]" "initial_state\<lparr>zoomLevel := fl (12 / 10)\<rparr>"]
  from t a s(1) have 1: "zoom_out_update (fl (12 / 10)) = fl (spec_round2 (4953959590107545 / 4503599627370496))"
    by blast
  from t b s(2) have 2: "zoom_in_update (fl (12 / 10)) = fl (spec_round2 (5854679515581645 / 4503599627370496))"
    by blast
  from t have 3: "zoomLevel (handleZoomReset (initial_state\<lparr>zoomLevel := fl (12 / 10)\<rparr>)) = Num 1"
    by blast
  from 1 2 have 4: "zoom_out_update (fl (12 / 10)) = fl (11 / 10)"
    and 5: "zoom_in_update (fl (12 / 10)) = fl (13 / 10)"
    by (simp_all only: r)
  show ?thesis using a b s r 3 4 5 by blast
qed

section \<open>Render scale and canvas width\<close>


















end
